theory Spec2Isabelle
  imports Complex_Main
begin

section \<open>The viewer controller \<open>Inner\<close> (src/packages/rpv/src/layouts/Inner.tsx)\<close>

text \<open>
  The component \<open>Inner\<close> is a React function component. Its body runs once per render;
  the handlers it declares are closures over the values that render read from
  \<open>useState\<close> (\<open>scale\<close>, \<open>currentPage\<close>, \<open>rotation\<close>). A call of a setter
  (\<open>setScale\<close>, \<open>setCurrentPage\<close>, \<open>setRotation\<close>) does not change what a closure
  sees: it changes what the next render reads. The model therefore keeps
  \<^item> a record \<open>Render\<close>: the three values one render captured for its closures, and
  \<^item> a record \<open>Inner_state\<close>: the latest values of the three \<open>useState\<close> cells, the
    \<open>useRef\<close> cells (\<open>stateRef\<close>, \<open>pagesRef\<close>, \<open>pageRefs\<close>), the DOM elements the
    refs point to, the asynchronous work in flight, and the log of calls the component
    made to the host and to the plugins.
  A handler is a function from the closure's \<open>Render\<close>, its arguments and the
  \<open>Inner_state\<close> to the new \<open>Inner_state\<close>. JavaScript numbers are modelled as
  \<open>int\<close> where the code uses them as page indices and degrees, and as \<open>real\<close> where
  it uses them as scale factors, ratios and lengths. The search state (\<open>keywordRegexp\<close>,
  \<open>match\<close>, \<open>jumpToMatch\<close>), \<open>executeNamedAction\<close> and the slot tree of
  \<open>renderViewer\<close> are left out: no property below depends on them.
\<close>

subsection \<open>Data\<close>

type_synonym bytes = "nat list"

text \<open>
  Modelled from the spec: the type \<open>OpenFile\<close> (../OpenFile) is imported by the source
  and not part of it; the spec calls it the open-file descriptor. The controller only
  passes it on.
\<close>

datatype OpenFile = OpenFile string bytes

text \<open>The browser's \<open>File\<close>: the code reads \<open>file.name\<close> and the file's content.\<close>

record File =
  name :: string
  content :: bytes

text \<open>\<open>ViewerState\<close> (the field \<open>file\<close> is \<open>file_v\<close> here), as \<open>zoom\<close>, \<open>rotate\<close> and the page
  effect build it.\<close>

record ViewerState =
  file_v :: OpenFile
  pageIndex :: int
  rotation :: int
  scale :: real

text \<open>
  Modelled from the spec: the enum \<open>SpecialZoomLevel\<close> (../SpecialZoomLevel) is imported
  by the source and not part of it. The spec lists its three symbolic levels; the
  argument of \<open>zoom\<close> has the type \<open>number | SpecialZoomLevel\<close>.
\<close>

datatype SpecialZoomLevel = ActualSize | PageFit | PageWidth

datatype zoom_arg = Factor real | Level SpecialZoomLevel

text \<open>The values one render captured for the closures it created.\<close>

record Render =
  scale_r :: real
  currentPage_r :: int
  rotation_r :: int

text \<open>
  \<open>PluginFunctions\<close>: the object \<open>getPluginMethods\<close> builds. Its members are the
  closures of the render that built it, so the model keeps that render.
\<close>

record PluginFunctions =
  methods_of :: Render

text \<open>
  A plugin: every hook is optional. What \<open>install\<close> and \<open>uninstall\<close> do is private to
  the plugin and returns nothing to the controller; the controller's part, the call, is
  recorded in the log. \<open>onViewerStateChange\<close> returns the state the controller goes on
  with.
\<close>

record Plugin =
  install :: "(PluginFunctions \<Rightarrow> unit) option"
  uninstall :: "(PluginFunctions \<Rightarrow> unit) option"
  onDocumentLoad :: "(unit \<Rightarrow> unit) option"
  onViewerStateChange :: "(ViewerState \<Rightarrow> ViewerState) option"

text \<open>The props of \<open>Inner\<close> that the modelled handlers read (\<open>numPages\<close> is
  \<open>doc.numPages\<close>; \<open>pageWidth\<close>, \<open>pageHeight\<close> and \<open>pageScale\<close> are the fields of
  \<open>pageSize\<close>).\<close>

record Props =
  defaultScale :: "zoom_arg option"
  numPages :: nat
  initialPage :: "int option"
  pageWidth :: real
  pageHeight :: real
  pageScale :: real
  plugins :: "Plugin list"
  viewerState :: ViewerState

text \<open>The DOM elements the refs point to, by address, with the four properties the
  code reads or writes.\<close>

type_synonym addr = nat

record Element =
  offsetTop :: real
  offsetWidth :: real
  offsetHeight :: real
  scrollTop :: real

text \<open>Calls of the component to the outside: the host's callbacks and the plugins'
  lifecycle hooks (a plugin is named by its position in \<open>plugins\<close>).\<close>

datatype event =
    Install nat PluginFunctions
  | Uninstall nat PluginFunctions
  | PluginDocumentLoad nat
  | OnDocumentLoad
  | OnPageChange int
  | OnZoom real
  | OnOpenFile string bytes

text \<open>Asynchronous work in flight: the file read of \<open>openFile\<close>, and the page fetch
  of \<open>jumpToDest\<close> with what its continuation captured (the render of the closure, the
  container element read at call time, and the three arguments).\<close>

datatype task =
    FileRead File
  | PageFetch int Render addr int real zoom_arg

datatype error = TypeError

record Inner_state =
  scale_s :: real
  currentPage_s :: int
  rotation_s :: int
  stateRef :: ViewerState
  pagesRef :: "addr option"
  pageRefs :: "nat \<Rightarrow> addr option"
  elems :: "addr \<Rightarrow> Element"
  renders :: "Render list"
  pending :: "task list"
  calls :: "event list"

definition SCROLL_BAR_WIDTH :: real where
  "SCROLL_BAR_WIDTH = 17"

definition PAGE_PADDING :: real where
  "PAGE_PADDING = 8"

subsection \<open>The viewer state store: \<open>setViewerState\<close>, \<open>getViewerState\<close>\<close>

text \<open>The \<open>forEach\<close> of \<open>setViewerState\<close>, with its variable \<open>newState\<close>.\<close>

fun setViewerState_forEach :: "Plugin list \<Rightarrow> ViewerState \<Rightarrow> ViewerState" where
  "setViewerState_forEach [] newState = newState"
| "setViewerState_forEach (plugin # rest) newState =
     setViewerState_forEach rest
       (case onViewerStateChange plugin of
          None \<Rightarrow> newState
        | Some hook \<Rightarrow> hook newState)"

definition setViewerState :: "Props \<Rightarrow> ViewerState \<Rightarrow> Inner_state \<Rightarrow> Inner_state" where
  "setViewerState P vs st = st\<lparr>stateRef := setViewerState_forEach (plugins P) vs\<rparr>"

definition getViewerState :: "Inner_state \<Rightarrow> ViewerState" where
  "getViewerState st = stateRef st"

definition getPagesRef :: "Inner_state \<Rightarrow> addr option" where
  "getPagesRef st = pagesRef st"

definition getPluginMethods :: "Render \<Rightarrow> PluginFunctions" where
  "getPluginMethods env = \<lparr>methods_of = env\<rparr>"

text \<open>
  The words of the spec for \<open>setViewerState\<close>, to compare the loop with: the hooks the
  plugins define, in install order, and a state passed through a sequence of hooks, each
  one applied to the result of the one before.
\<close>

definition hooks_in_install_order :: "Plugin list \<Rightarrow> (ViewerState \<Rightarrow> ViewerState) list" where
  "hooks_in_install_order ps = List.map_filter onViewerStateChange ps"

primrec passed_through :: "('a \<Rightarrow> 'a) list \<Rightarrow> 'a \<Rightarrow> 'a" where
  "passed_through [] s = s"
| "passed_through (h # hs) s = passed_through hs (h s)"

subsection \<open>The install effect and its cleanup\<close>

text \<open>
  \<open>useEffect(() => { ... install ...; return () => { ... uninstall ... } }, [])\<close>:
  the two \<open>forEach\<close> loops, with the position of the plugin that \<open>forEach\<close> is at. Both
  loops pass the one object \<open>pluginMethods\<close> that the effect built.
\<close>

fun install_forEach :: "Plugin list \<Rightarrow> nat \<Rightarrow> PluginFunctions \<Rightarrow> Inner_state \<Rightarrow> Inner_state" where
  "install_forEach [] index pluginMethods st = st"
| "install_forEach (plugin # rest) index pluginMethods st =
     install_forEach rest (Suc index) pluginMethods
       (case install plugin of
          None \<Rightarrow> st
        | Some hook \<Rightarrow> st\<lparr>calls := calls st @ [Install index pluginMethods]\<rparr>)"

fun uninstall_forEach :: "Plugin list \<Rightarrow> nat \<Rightarrow> PluginFunctions \<Rightarrow> Inner_state \<Rightarrow> Inner_state" where
  "uninstall_forEach [] index pluginMethods st = st"
| "uninstall_forEach (plugin # rest) index pluginMethods st =
     uninstall_forEach rest (Suc index) pluginMethods
       (case uninstall plugin of
          None \<Rightarrow> st
        | Some hook \<Rightarrow> st\<lparr>calls := calls st @ [Uninstall index pluginMethods]\<rparr>)"

definition installEffect :: "Props \<Rightarrow> Render \<Rightarrow> Inner_state \<Rightarrow> Inner_state" where
  "installEffect P env st =
     (let pluginMethods = getPluginMethods env
      in install_forEach (plugins P) 0 pluginMethods st)"

definition installEffect_cleanup :: "Props \<Rightarrow> Render \<Rightarrow> Inner_state \<Rightarrow> Inner_state" where
  "installEffect_cleanup P env st =
     (let pluginMethods = getPluginMethods env
      in uninstall_forEach (plugins P) 0 pluginMethods st)"

subsection \<open>\<open>openFile\<close>\<close>

text \<open>\<open>String.prototype.toLowerCase\<close> on the ASCII letters; the other bytes of the
  string stay as they are.\<close>

definition toLowerCase_char :: "char \<Rightarrow> char" where
  "toLowerCase_char c =
     (let n = (of_char c :: nat) in if 65 \<le> n \<and> n \<le> 90 then char_of (n + 32) else c)"

definition toLowerCase :: "string \<Rightarrow> string" where
  "toLowerCase s = map toLowerCase_char s"

text \<open>
  \<open>getFileExt\<close> (../utils/fileExt) is imported by the source and not part of it: it is
  a parameter of \<open>openFile\<close>. When the extension is accepted the code starts the read
  of the file and registers the continuation \<open>openFile_then\<close>, which is the only
  place that calls \<open>onOpenFile\<close>.
\<close>

definition openFile :: "(string \<Rightarrow> string) \<Rightarrow> File \<Rightarrow> Inner_state \<Rightarrow> Inner_state" where
  "openFile getFileExt f st =
     (if toLowerCase (getFileExt (name f)) \<noteq> ''pdf'' then st
      else st\<lparr>pending := pending st @ [FileRead f]\<rparr>)"

definition openFile_then :: "File \<Rightarrow> bytes \<Rightarrow> Inner_state \<Rightarrow> Inner_state" where
  "openFile_then f data st = st\<lparr>calls := calls st @ [OnOpenFile (name f) data]\<rparr>"

subsection \<open>\<open>jumpToPage\<close>\<close>

text \<open>\<open>pageRefs\<close> is an array of \<open>numPages\<close> refs, so inside the range check
  \<open>pageRefs[pageIndex]\<close> is a ref, whose \<open>current\<close> is an element or missing.\<close>

definition jumpToPage :: "Props \<Rightarrow> int \<Rightarrow> Inner_state \<Rightarrow> Inner_state" where
  "jumpToPage P pageIndex' st =
     (if pageIndex' < 0 \<or> pageIndex' \<ge> int (numPages P) then st
      else
        let pagesContainer = pagesRef st;
            targetPage = pageRefs st (nat pageIndex');
            st1 = (case (pagesContainer, targetPage) of
                     (Some c, Some t) \<Rightarrow>
                       st\<lparr>elems := (elems st)(c := (elems st c)\<lparr>scrollTop := offsetTop (elems st t)\<rparr>)\<rparr>
                   | _ \<Rightarrow> st)
        in st1\<lparr>currentPage_s := pageIndex'\<rparr>)"

subsection \<open>The effects on document load and on a change of \<open>currentPage\<close>\<close>

fun onDocumentLoad_forEach :: "Plugin list \<Rightarrow> nat \<Rightarrow> Inner_state \<Rightarrow> Inner_state" where
  "onDocumentLoad_forEach [] index st = st"
| "onDocumentLoad_forEach (plugin # rest) index st =
     onDocumentLoad_forEach rest (Suc index)
       (case onDocumentLoad plugin of
          None \<Rightarrow> st
        | Some hook \<Rightarrow> st\<lparr>calls := calls st @ [PluginDocumentLoad index]\<rparr>)"

definition documentLoadEffect :: "Props \<Rightarrow> Inner_state \<Rightarrow> Inner_state" where
  "documentLoadEffect P st =
     (let st1 = st\<lparr>calls := calls st @ [OnDocumentLoad]\<rparr>;
          st2 = onDocumentLoad_forEach (plugins P) 0 st1
      in case initialPage P of
           None \<Rightarrow> st2
         | Some p \<Rightarrow> if p \<noteq> 0 then jumpToPage P p st2 else st2)"

definition pageChangeEffect :: "Props \<Rightarrow> Render \<Rightarrow> Inner_state \<Rightarrow> Inner_state" where
  "pageChangeEffect P env st =
     setViewerState P
       \<lparr>file_v = file_v (viewerState P),
        pageIndex = currentPage_r env,
        rotation = rotation_r env,
        scale = scale_r env\<rparr>
       (st\<lparr>calls := calls st @ [OnPageChange (currentPage_r env)]\<rparr>)"

subsection \<open>\<open>zoom\<close>\<close>

definition zoom :: "Props \<Rightarrow> Render \<Rightarrow> zoom_arg \<Rightarrow> Inner_state \<Rightarrow> Inner_state" where
  "zoom P env newScale st =
     (case pagesRef st of
        None \<Rightarrow> st
      | Some pagesEle \<Rightarrow>
          let updateScale =
                (case newScale of
                   Level ActualSize \<Rightarrow> 1
                 | Level PageFit \<Rightarrow>
                     min ((offsetWidth (elems st pagesEle) - SCROLL_BAR_WIDTH) / pageWidth P)
                         ((offsetHeight (elems st pagesEle) - 2 * PAGE_PADDING) / pageHeight P)
                 | Level PageWidth \<Rightarrow>
                     (offsetWidth (elems st pagesEle) - SCROLL_BAR_WIDTH) / pageWidth P
                 | Factor x \<Rightarrow> x)
          in setViewerState P
               \<lparr>file_v = file_v (viewerState P),
                pageIndex = currentPage_r env,
                rotation = rotation_r env,
                scale = updateScale\<rparr>
               (st\<lparr>scale_s := updateScale, calls := calls st @ [OnZoom updateScale]\<rparr>))"

text \<open>\<open>if (defaultScale)\<close>: a missing value and the number 0 are falsy, a symbolic
  level is a non-empty string.\<close>

fun truthy :: "zoom_arg \<Rightarrow> bool" where
  "truthy (Factor x) = (x \<noteq> 0)"
| "truthy (Level l) = True"

definition defaultScaleEffect :: "Props \<Rightarrow> Render \<Rightarrow> Inner_state \<Rightarrow> Inner_state" where
  "defaultScaleEffect P env st =
     (case defaultScale P of
        None \<Rightarrow> st
      | Some z \<Rightarrow> if truthy z then zoom P env z st else st)"

subsection \<open>\<open>pageVisibilityChanged\<close>\<close>









subsection \<open>\<open>rotate\<close>\<close>

definition rotate_fn :: "Props \<Rightarrow> Render \<Rightarrow> int \<Rightarrow> Inner_state \<Rightarrow> Inner_state" where
  "rotate_fn P env updateRotation st =
     setViewerState P
       \<lparr>file_v = file_v (viewerState P),
        pageIndex = currentPage_r env,
        rotation = updateRotation,
        scale = scale_r env\<rparr>
       (st\<lparr>rotation_s := updateRotation\<rparr>)"

subsection \<open>\<open>jumpToDest\<close>\<close>

text \<open>The value \<open>page.getViewport({ scale: 1 })\<close> that the document handle resolves
  the fetch with.\<close>

record Viewport =
  width :: real
  height :: real

text \<open>The synchronous part: the container is read, and the fetch of page
  \<open>pageIndex + 1\<close> is started with the continuation \<open>jumpToDest_then\<close>.\<close>

definition jumpToDest :: "Props \<Rightarrow> Render \<Rightarrow> int \<Rightarrow> real \<Rightarrow> zoom_arg \<Rightarrow> Inner_state \<Rightarrow> Inner_state" where
  "jumpToDest P env pageIndex' bottomOffset scaleTo st =
     (case pagesRef st of
        None \<Rightarrow> st
      | Some pagesContainer \<Rightarrow>
          let newPageIndex = pageIndex' + 1
          in st\<lparr>pending := pending st @
                 [PageFetch newPageIndex env pagesContainer pageIndex' bottomOffset scaleTo]\<rparr>)"

text \<open>
  The continuation, run when the fetch resolves. \<open>pagesContainer\<close> is the element
  captured at call time; \<open>zoom\<close> and \<open>pageRefs[pageIndex].current\<close> read the refs as
  they are now. Outside the range of the array \<open>pageRefs[pageIndex]\<close> is \<open>undefined\<close>
  and reading its \<open>current\<close> throws, after what \<open>zoom\<close> did.
\<close>

definition jumpToDest_then ::
    "Props \<Rightarrow> Render \<Rightarrow> addr \<Rightarrow> int \<Rightarrow> real \<Rightarrow> zoom_arg \<Rightarrow> Viewport \<Rightarrow> Inner_state
     \<Rightarrow> Inner_state \<times> error option" where
  "jumpToDest_then P env pagesContainer pageIndex' bottomOffset scaleTo viewport st =
     (let bottom = (if bottomOffset \<noteq> 0 then bottomOffset else 0);
          (top', st1) =
             (case scaleTo of
                Level PageFit \<Rightarrow> (0, zoom P env (Level PageFit) st)
              | _ \<Rightarrow> ((height viewport - bottom) * scale_r env, st))
      in if pageIndex' < 0 \<or> pageIndex' \<ge> int (numPages P) then (st1, Some TypeError)
         else
           case pageRefs st1 (nat pageIndex') of
             None \<Rightarrow> (st1, None)
           | Some targetPageEle \<Rightarrow>
               (st1\<lparr>elems := (elems st1)(pagesContainer := (elems st1 pagesContainer)
                        \<lparr>scrollTop := offsetTop (elems st1 targetPageEle) + top'\<rparr>)\<rparr>,
                None))"

subsection \<open>Mounting, rendering again, unmounting\<close>

text \<open>
  What React does around the code. The first render reads the initial values of the
  three \<open>useState\<close> cells; \<open>stateRef\<close> starts as the prop \<open>viewerState\<close>. Committing the
  first render attaches the refs to the elements and runs the four effects in the order
  the code declares them. A later render reads the cells again, and runs the effect on
  \<open>currentPage\<close> when that value differs from the one of the render before. Unmounting
  detaches every ref and runs the cleanup of the install effect.
\<close>

definition first_render :: "Props \<Rightarrow> Render" where
  "first_render P = \<lparr>scale_r = pageScale P, currentPage_r = 0, rotation_r = 0\<rparr>"

definition init :: "Props \<Rightarrow> (addr \<Rightarrow> Element) \<Rightarrow> Inner_state" where
  "init P d =
     \<lparr>scale_s = pageScale P, currentPage_s = 0, rotation_s = 0,
      stateRef = viewerState P,
      pagesRef = None, pageRefs = (\<lambda>i. None),
      elems = d, renders = [first_render P], pending = [], calls = []\<rparr>"

definition mount :: "Props \<Rightarrow> addr \<Rightarrow> (nat \<Rightarrow> addr) \<Rightarrow> (addr \<Rightarrow> Element) \<Rightarrow> Inner_state" where
  "mount P pagesEle pageEles d =
     (let env = first_render P;
          st0 = (init P d)\<lparr>pagesRef := Some pagesEle,
                           pageRefs := (\<lambda>i. if i < numPages P then Some (pageEles i) else None)\<rparr>
      in defaultScaleEffect P env
           (pageChangeEffect P env
              (documentLoadEffect P
                 (installEffect P env st0))))"

definition snapshot :: "Inner_state \<Rightarrow> Render" where
  "snapshot st = \<lparr>scale_r = scale_s st, currentPage_r = currentPage_s st, rotation_r = rotation_s st\<rparr>"

definition rerender :: "Props \<Rightarrow> Inner_state \<Rightarrow> Inner_state" where
  "rerender P st =
     (let env = snapshot st;
          st1 = st\<lparr>renders := renders st @ [env]\<rparr>
      in if renders st \<noteq> [] \<and> currentPage_r (last (renders st)) = currentPage_r env then st1
         else pageChangeEffect P env st1)"

definition unmount :: "Props \<Rightarrow> Inner_state \<Rightarrow> Inner_state" where
  "unmount P st =
     installEffect_cleanup P (first_render P) (st\<lparr>pagesRef := None, pageRefs := (\<lambda>i. None)\<rparr>)"

definition is_unmounted :: "Props \<Rightarrow> Inner_state \<Rightarrow> bool" where
  "is_unmounted P st =
     (pagesRef st = None \<and> list_all (\<lambda>i. pageRefs st i = None) [0..<numPages P])"

subsection \<open>Sequences of operations\<close>

text \<open>
  The operations of the capability object that change the state, and a render. \<open>rotate\<close>
  and \<open>zoom\<close> read values of their render: the operation names the render whose closure
  is called, by its position in the history of renders (a call of a closure that no
  render created does not exist and changes nothing). \<open>jumpToPage\<close> and
  \<open>setViewerState\<close> read no value of a render.
\<close>

datatype operation =
    Rotate nat int
  | Zoom nat zoom_arg
  | JumpToPage int
  | SetViewerState ViewerState
  | Rerender

fun step :: "Props \<Rightarrow> operation \<Rightarrow> Inner_state \<Rightarrow> Inner_state" where
  "step P (Rotate k d) st = (if k < length (renders st) then rotate_fn P (renders st ! k) d st else st)"
| "step P (Zoom k z) st = (if k < length (renders st) then zoom P (renders st ! k) z st else st)"
| "step P (JumpToPage i) st = jumpToPage P i st"
| "step P (SetViewerState vs) st = setViewerState P vs st"
| "step P Rerender st = rerender P st"

fun run :: "Props \<Rightarrow> operation list \<Rightarrow> Inner_state \<Rightarrow> Inner_state" where
  "run P [] st = st"
| "run P (x # xs) st = run P xs (step P x st)"

subsection \<open>Notions of the specification\<close>

text \<open>The positions, in list order, of the plugins that define a given hook.\<close>

definition positions_defining :: "(Plugin \<Rightarrow> 'h option) \<Rightarrow> Plugin list \<Rightarrow> nat list" where
  "positions_defining hook ps = filter (\<lambda>i. hook (ps ! i) \<noteq> None) [0..<length ps]"

text \<open>The calls of \<open>install\<close> and \<open>uninstall\<close> hooks among the calls made so far.\<close>

fun is_lifecycle :: "event \<Rightarrow> bool" where
  "is_lifecycle (Install i m) = True"
| "is_lifecycle (Uninstall i m) = True"
| "is_lifecycle e = False"

definition lifecycle_calls :: "Inner_state \<Rightarrow> event list" where
  "lifecycle_calls st = filter is_lifecycle (calls st)"






text \<open>
  Rotations by a multiple of a quarter turn; hooks that return such a rotation when
  given one; operations whose argument carries such a rotation; and states in which the
  canonical state, the \<open>useState\<close> cell and every render hold such a rotation.
\<close>

definition right_angle :: "int \<Rightarrow> bool" where
  "right_angle d = (d \<in> {0, 90, 180, 270})"

definition keeps_right_angles :: "(ViewerState \<Rightarrow> ViewerState) \<Rightarrow> bool" where
  "keeps_right_angles hook =
     (\<forall>s. right_angle (rotation s) \<longrightarrow> right_angle (rotation (hook s)))"

definition hooks_keep_right_angles :: "Props \<Rightarrow> bool" where
  "hooks_keep_right_angles P = list_all keeps_right_angles (hooks_in_install_order (plugins P))"

fun right_angle_argument :: "operation \<Rightarrow> bool" where
  "right_angle_argument (Rotate k d) = right_angle d"
| "right_angle_argument (SetViewerState s) = right_angle (rotation s)"
| "right_angle_argument x = True"

definition rotations_ok :: "Inner_state \<Rightarrow> bool" where
  "rotations_ok st =
     (right_angle (rotation (stateRef st)) \<and> right_angle (rotation_s st) \<and>
      list_all (\<lambda>e. right_angle (rotation_r e)) (renders st))"

subsection \<open>A concrete viewer\<close>

text \<open>
  A document of three pages of 400 by 600 in a container of 817 by 616 (element 0; the
  page of index \<open>i\<close> is element \<open>i + 1\<close>), and four plugins: one that installs and
  uninstalls and turns every state by a quarter, one that only installs, one with no
  hook at all, and one that only uninstalls and sets the scale of every state to 2.
\<close>

definition ex_dom :: "addr \<Rightarrow> Element" where
  "ex_dom a =
     (if a = 0 then \<lparr>offsetTop = 0, offsetWidth = 817, offsetHeight = 616, scrollTop = 0\<rparr>
      else \<lparr>offsetTop = 600 * real (a - 1), offsetWidth = 400, offsetHeight = 600, scrollTop = 0\<rparr>)"

definition ex_viewerState :: ViewerState where
  "ex_viewerState =
     \<lparr>file_v = OpenFile ''a.pdf'' [37, 80, 68, 70], pageIndex = 0, rotation = 0, scale = 1\<rparr>"

definition quarter_turn :: "ViewerState \<Rightarrow> ViewerState" where
  "quarter_turn s = s\<lparr>rotation := (rotation s + 90) mod 360\<rparr>"

definition double_scale :: "ViewerState \<Rightarrow> ViewerState" where
  "double_scale s = s\<lparr>scale := 2\<rparr>"

definition ignore_methods :: "PluginFunctions \<Rightarrow> unit" where
  "ignore_methods m = ()"

definition ex_plugins :: "Plugin list" where
  "ex_plugins =
     [\<lparr>install = Some ignore_methods, uninstall = Some ignore_methods,
       onDocumentLoad = None, onViewerStateChange = Some quarter_turn\<rparr>,
      \<lparr>install = Some ignore_methods, uninstall = None,
       onDocumentLoad = None, onViewerStateChange = None\<rparr>,
      \<lparr>install = None, uninstall = None,
       onDocumentLoad = None, onViewerStateChange = None\<rparr>,
      \<lparr>install = None, uninstall = Some ignore_methods,
       onDocumentLoad = None, onViewerStateChange = Some double_scale\<rparr>]"

definition ex_props :: Props where
  "ex_props =
     \<lparr>defaultScale = None, numPages = 3, initialPage = None,
      pageWidth = 400, pageHeight = 600, pageScale = 1,
      plugins = ex_plugins, viewerState = ex_viewerState\<rparr>"

definition ex_bare :: Props where
  "ex_bare = ex_props\<lparr>plugins := []\<rparr>"

definition ex_mounted :: Inner_state where
  "ex_mounted = mount ex_props 0 Suc ex_dom"

definition ex_operations :: "operation list" where
  "ex_operations =
     [Rotate 0 90, Zoom 0 (Level PageFit), Rerender, JumpToPage 2, Rerender,
      SetViewerState (ex_viewerState\<lparr>rotation := 270\<rparr>), Zoom 2 (Factor 3)]"

text \<open>A stand-in for \<open>getFileExt\<close>: the text after the last dot of the name.\<close>

definition after_last_dot :: "string \<Rightarrow> string" where
  "after_last_dot s = rev (takeWhile (\<lambda>c. c \<noteq> CHR ''.'') (rev s))"

section \<open>Properties\<close>

subsection \<open>The viewer state store\<close>

lemma setViewerState_forEach_hooks:
  "setViewerState_forEach ps s = passed_through (hooks_in_install_order ps) s"
  by (induction ps arbitrary: s)
     (simp_all add: hooks_in_install_order_def List.map_filter_simps split: option.splits)

lemma setViewerState_forEach_last:
  "setViewerState_forEach (ps @ [p]) s =
     (case onViewerStateChange p of
        None \<Rightarrow> setViewerState_forEach ps s
      | Some hook \<Rightarrow> hook (setViewerState_forEach ps s))"
  by (induction ps arbitrary: s) (simp_all split: option.splits)

text \<open>
  C1. \<open>setViewerState(s)\<close> passes \<open>s\<close> through the \<open>onViewerStateChange\<close> hooks of the
  installed plugins, in install order, each hook applied to the result of the hook
  before it and none left out; the result is what \<open>stateRef\<close> holds afterwards, so
  \<open>getViewerState()\<close>, which only reads \<open>stateRef\<close>, returns it, at every read of that
  state.
\<close>

theorem setViewerState_then_getViewerState:
  "getViewerState (setViewerState P s st) =
     passed_through (hooks_in_install_order (plugins P)) s"
  by (simp add: getViewerState_def setViewerState_def setViewerState_forEach_hooks)

theorem setViewerState_then_getViewerState_witness:
  "hooks_in_install_order (plugins ex_props) = [quarter_turn, double_scale] \<and>
   getViewerState (setViewerState ex_props ex_viewerState ex_mounted) =
     ex_viewerState\<lparr>rotation := 90, scale := 2\<rparr>"
  using setViewerState_then_getViewerState [of ex_props ex_viewerState ex_mounted]
  by (simp add: hooks_in_install_order_def ex_props_def ex_plugins_def quarter_turn_def
        double_scale_def ex_viewerState_def)

text \<open>
  C10. \<open>setViewerState(s)\<close> writes \<open>stateRef\<close> and nothing else: the three
  \<open>useState\<close> cells (scale, current page, rotation), which are what a render reads and
  what schedules one, the refs to the elements, the elements, the work in flight and the
  calls made to the host are as they were.
\<close>

theorem setViewerState_frame:
  "scale_s (setViewerState P s st) = scale_s st \<and>
   currentPage_s (setViewerState P s st) = currentPage_s st \<and>
   rotation_s (setViewerState P s st) = rotation_s st \<and>
   snapshot (setViewerState P s st) = snapshot st \<and>
   setViewerState P s st = st\<lparr>stateRef := getViewerState (setViewerState P s st)\<rparr>"
  by (simp add: setViewerState_def getViewerState_def snapshot_def)

theorem setViewerState_frame_witness:
  "scale_s (setViewerState ex_props (ex_viewerState\<lparr>pageIndex := 2, scale := 5\<rparr>) ex_mounted) =
     scale_s ex_mounted \<and>
   currentPage_s (setViewerState ex_props (ex_viewerState\<lparr>pageIndex := 2, scale := 5\<rparr>) ex_mounted) =
     currentPage_s ex_mounted \<and>
   rotation_s (setViewerState ex_props (ex_viewerState\<lparr>pageIndex := 2, scale := 5\<rparr>) ex_mounted) =
     rotation_s ex_mounted \<and>
   pageIndex (getViewerState
     (setViewerState ex_props (ex_viewerState\<lparr>pageIndex := 2, scale := 5\<rparr>) ex_mounted)) = 2"
  using setViewerState_frame [of ex_props "ex_viewerState\<lparr>pageIndex := 2, scale := 5\<rparr>" ex_mounted]
        setViewerState_forEach_hooks [of ex_plugins "ex_viewerState\<lparr>pageIndex := 2, scale := 5\<rparr>"]
  by (simp add: getViewerState_def setViewerState_def hooks_in_install_order_def ex_props_def
        ex_plugins_def quarter_turn_def double_scale_def)

subsection \<open>Navigation\<close>

text \<open>
  C5. For an index below 0 or not below \<open>numPages\<close>, \<open>jumpToPage(index)\<close> returns at
  once: the whole state, the current page with it, is as it was, and nothing is raised
  (the function has no failing branch).
\<close>

theorem jumpToPage_out_of_range:
  "i < 0 \<or> i \<ge> int (numPages P) \<Longrightarrow> jumpToPage P i st = st"
  by (auto simp: jumpToPage_def)

theorem jumpToPage_out_of_range_witness:
  "((-1 :: int) < 0 \<or> -1 \<ge> int (numPages ex_props)) \<and>
   jumpToPage ex_props (-1) ex_mounted = ex_mounted \<and>
   ((3 :: int) < 0 \<or> 3 \<ge> int (numPages ex_props)) \<and>
   jumpToPage ex_props 3 ex_mounted = ex_mounted"
  using jumpToPage_out_of_range [of "-1" ex_props ex_mounted]
        jumpToPage_out_of_range [of 3 ex_props ex_mounted]
  by (simp add: ex_props_def)

subsection \<open>Opening a file\<close>

text \<open>
  C6. When the extension of the file's name, in lower case, is not \<open>pdf\<close>,
  \<open>openFile(file)\<close> returns at once: no read is started, so the continuation that
  calls \<open>onOpenFile\<close> is never registered, the log of calls is as it was, and nothing
  is raised.
\<close>

theorem openFile_rejects_other_extensions:
  "toLowerCase (getFileExt (name f)) \<noteq> ''pdf'' \<Longrightarrow> openFile getFileExt f st = st"
  by (simp add: openFile_def)

theorem openFile_rejects_other_extensions_witness:
  "toLowerCase (after_last_dot (name \<lparr>name = ''notes.TXT'', content = [1, 2]\<rparr>)) \<noteq> ''pdf'' \<and>
   openFile after_last_dot \<lparr>name = ''notes.TXT'', content = [1, 2]\<rparr> ex_mounted = ex_mounted"
proof -
  have h: "toLowerCase (after_last_dot (name \<lparr>name = ''notes.TXT'', content = [1, 2]\<rparr>)) \<noteq> ''pdf''"
    by (simp add: after_last_dot_def toLowerCase_def toLowerCase_char_def)
  from h openFile_rejects_other_extensions
           [of after_last_dot "\<lparr>name = ''notes.TXT'', content = [1, 2]\<rparr>" ex_mounted]
  show ?thesis
    by simp
qed

lemma openFile_accepts_pdf:
  "pending (openFile after_last_dot \<lparr>name = ''Paper.PDF'', content = bs\<rparr> st) =
     pending st @ [FileRead \<lparr>name = ''Paper.PDF'', content = bs\<rparr>]"
proof -
  have "toLowerCase (after_last_dot ''Paper.PDF'') = ''pdf''"
    by code_simp
  then show ?thesis
    by (simp add: openFile_def)
qed

subsection \<open>The concrete viewer, evaluated\<close>

lemmas ex_mount_defs =
  ex_mounted_def mount_def init_def ex_props_def ex_plugins_def first_render_def
  defaultScaleEffect_def pageChangeEffect_def documentLoadEffect_def installEffect_def
  setViewerState_def getPluginMethods_def ex_viewerState_def quarter_turn_def Let_def

lemma ex_mounted_cells:
  "pagesRef ex_mounted = Some 0"
  "elems ex_mounted = ex_dom"
  "pageRefs ex_mounted = (\<lambda>i. if i < 3 then Some (Suc i) else None)"
  "currentPage_s ex_mounted = 0"
  "scale_s ex_mounted = 1"
  "rotation_s ex_mounted = 0"
  "renders ex_mounted = [first_render ex_props]"
  "pending ex_mounted = []"
  by (simp_all add: ex_mount_defs)

lemma ex_props_fields:
  "numPages ex_props = 3" "pageWidth ex_props = 400" "pageHeight ex_props = 600"
  "plugins ex_props = ex_plugins"
  "first_render ex_props = \<lparr>scale_r = 1, currentPage_r = 0, rotation_r = 0\<rparr>"
  by (simp_all add: ex_props_def first_render_def)

subsection \<open>Zoom\<close>

text \<open>
  C3. With the container mounted (\<open>pagesRef\<close> holds an element of width \<open>W\<close> and height
  \<open>H\<close>) and a page of positive width \<open>w\<close> and height \<open>h\<close>, \<open>zoom(PageFit)\<close> sets the
  scale to \<open>min((W - 17) / w, (H - 16) / h)\<close>, \<open>zoom(PageWidth)\<close> sets it to
  \<open>(W - 17) / w\<close>, and \<open>zoom(ActualSize)\<close> sets it to 1.
\<close>

theorem zoom_symbolic_levels:
  assumes "pagesRef st = Some e" and "pageWidth P > 0" and "pageHeight P > 0"
  shows "scale_s (zoom P env (Level PageFit) st) =
           min ((offsetWidth (elems st e) - 17) / pageWidth P)
               ((offsetHeight (elems st e) - 16) / pageHeight P) \<and>
         scale_s (zoom P env (Level PageWidth) st) =
           (offsetWidth (elems st e) - 17) / pageWidth P \<and>
         scale_s (zoom P env (Level ActualSize) st) = 1"
  using assms
  by (simp add: zoom_def setViewerState_def SCROLL_BAR_WIDTH_def PAGE_PADDING_def Let_def)

theorem zoom_symbolic_levels_witness:
  "pagesRef ex_mounted = Some 0 \<and> pageWidth ex_props > 0 \<and> pageHeight ex_props > 0 \<and>
   scale_s (zoom ex_props (first_render ex_props) (Level PageFit) ex_mounted) = 1 \<and>
   scale_s (zoom ex_props (first_render ex_props) (Level PageWidth) ex_mounted) = 2 \<and>
   scale_s (zoom ex_props (first_render ex_props) (Level ActualSize) ex_mounted) = 1"
  using zoom_symbolic_levels [of ex_mounted 0 ex_props "first_render ex_props"]
  by (simp add: ex_mounted_cells ex_props_fields ex_dom_def)

lemma zoom_not_mounted: "pagesRef st = None \<Longrightarrow> zoom P env z st = st"
  by (simp add: zoom_def)

subsection \<open>The page visibility tracker\<close>













subsection \<open>The plugin lifecycle\<close>

lemma positions_defining_Nil: "positions_defining hook [] = []"
  by (simp add: positions_defining_def)

lemma positions_defining_Cons:
  "positions_defining hook (p # ps) =
     (if hook p \<noteq> None then [0] else []) @ map Suc (positions_defining hook ps)"
proof -
  have "[0..<length (p # ps)] = 0 # map Suc [0..<length ps]"
    by (simp add: upt_conv_Cons map_Suc_upt del: upt_Suc)
  then show ?thesis
    unfolding positions_defining_def by (simp add: filter_map comp_def del: upt_Suc)
qed

lemma positions_defining_increasing: "sorted_wrt (<) (positions_defining hook ps)"
  unfolding positions_defining_def by (rule sorted_wrt_filter) simp

text \<open>What each of the three loops over the plugins leaves behind: the calls of the
  hooks that are defined, in list order, appended to the log.\<close>

lemma install_forEach_calls:
  "install_forEach ps k pm st =
     st\<lparr>calls := calls st @ map (\<lambda>i. Install (k + i) pm) (positions_defining install ps)\<rparr>"
proof (induction ps arbitrary: k st)
  case Nil
  show ?case by (simp add: positions_defining_Nil)
next
  case (Cons p ps)
  show ?case
    by (cases "install p") (simp_all add: Cons.IH positions_defining_Cons comp_def)
qed

lemma uninstall_forEach_calls:
  "uninstall_forEach ps k pm st =
     st\<lparr>calls := calls st @ map (\<lambda>i. Uninstall (k + i) pm) (positions_defining uninstall ps)\<rparr>"
proof (induction ps arbitrary: k st)
  case Nil
  show ?case by (simp add: positions_defining_Nil)
next
  case (Cons p ps)
  show ?case
    by (cases "uninstall p") (simp_all add: Cons.IH positions_defining_Cons comp_def)
qed

lemma onDocumentLoad_forEach_calls:
  "onDocumentLoad_forEach ps k st =
     st\<lparr>calls := calls st @
            map (\<lambda>i. PluginDocumentLoad (k + i)) (positions_defining onDocumentLoad ps)\<rparr>"
proof (induction ps arbitrary: k st)
  case Nil
  show ?case by (simp add: positions_defining_Nil)
next
  case (Cons p ps)
  show ?case
    by (cases "onDocumentLoad p") (simp_all add: Cons.IH positions_defining_Cons comp_def)
qed

text \<open>No handler and no other effect calls a lifecycle hook.\<close>

lemma lifecycle_setViewerState: "lifecycle_calls (setViewerState P s st) = lifecycle_calls st"
  by (simp add: lifecycle_calls_def setViewerState_def)

lemma lifecycle_jumpToPage: "lifecycle_calls (jumpToPage P i st) = lifecycle_calls st"
  by (simp add: lifecycle_calls_def jumpToPage_def Let_def split: option.splits)

lemma lifecycle_zoom: "lifecycle_calls (zoom P env z st) = lifecycle_calls st"
  by (simp add: lifecycle_calls_def zoom_def setViewerState_def Let_def split: option.splits)

lemma lifecycle_rotate: "lifecycle_calls (rotate_fn P env d st) = lifecycle_calls st"
  by (simp add: lifecycle_calls_def rotate_fn_def setViewerState_def)

lemma lifecycle_pageChange: "lifecycle_calls (pageChangeEffect P env st) = lifecycle_calls st"
  by (simp add: lifecycle_calls_def pageChangeEffect_def setViewerState_def)

lemma lifecycle_rerender: "lifecycle_calls (rerender P st) = lifecycle_calls st"
  using lifecycle_pageChange [of P "snapshot st" "st\<lparr>renders := renders st @ [snapshot st]\<rparr>"]
  by (simp add: rerender_def Let_def) (simp add: lifecycle_calls_def)

lemma lifecycle_step: "lifecycle_calls (step P x st) = lifecycle_calls st"
  by (cases x)
     (simp_all add: lifecycle_setViewerState lifecycle_jumpToPage lifecycle_zoom
        lifecycle_rotate lifecycle_rerender)

lemma lifecycle_run: "lifecycle_calls (run P xs st) = lifecycle_calls st"
  by (induction xs arbitrary: st) (simp_all add: lifecycle_step)

lemma lifecycle_defaultScale:
  "lifecycle_calls (defaultScaleEffect P env st) = lifecycle_calls st"
  by (simp add: defaultScaleEffect_def lifecycle_zoom split: option.splits)

lemma lifecycle_documentLoad: "lifecycle_calls (documentLoadEffect P st) = lifecycle_calls st"
  by (simp add: documentLoadEffect_def Let_def lifecycle_jumpToPage onDocumentLoad_forEach_calls
        split: option.splits)
     (simp add: lifecycle_calls_def filter_map comp_def)

lemma lifecycle_mount:
  "lifecycle_calls (mount P pagesEle pageEles d) =
     map (\<lambda>i. Install i (getPluginMethods (first_render P)))
       (positions_defining install (plugins P))"
  by (simp add: mount_def Let_def lifecycle_defaultScale lifecycle_pageChange lifecycle_documentLoad)
     (simp add: lifecycle_calls_def installEffect_def install_forEach_calls init_def)

lemma lifecycle_unmount:
  "lifecycle_calls (unmount P st) =
     lifecycle_calls st @
     map (\<lambda>i. Uninstall i (getPluginMethods (first_render P)))
       (positions_defining uninstall (plugins P))"
  by (simp add: unmount_def installEffect_cleanup_def uninstall_forEach_calls lifecycle_calls_def)

text \<open>
  C4. Over a cycle of mounting, any operations and renders, and unmounting, the calls
  of lifecycle hooks are: one \<open>install\<close> call for each plugin that defines \<open>install\<close>,
  in list order, then one \<open>uninstall\<close> call for each plugin that defines \<open>uninstall\<close>,
  in list order, every call with the capability object that the effect built. The
  positions are strictly increasing, so no plugin is called twice.
\<close>

theorem install_uninstall_once_in_order:
  "lifecycle_calls (unmount P (run P ops (mount P pagesEle pageEles d))) =
     map (\<lambda>i. Install i (getPluginMethods (first_render P)))
       (positions_defining install (plugins P)) @
     map (\<lambda>i. Uninstall i (getPluginMethods (first_render P)))
       (positions_defining uninstall (plugins P)) \<and>
   sorted_wrt (<) (positions_defining install (plugins P)) \<and>
   sorted_wrt (<) (positions_defining uninstall (plugins P))"
  by (simp add: lifecycle_unmount lifecycle_run lifecycle_mount positions_defining_increasing)

theorem install_uninstall_once_in_order_witness:
  "lifecycle_calls (unmount ex_props (run ex_props ex_operations ex_mounted)) =
     [Install 0 (getPluginMethods (first_render ex_props)),
      Install 1 (getPluginMethods (first_render ex_props)),
      Uninstall 0 (getPluginMethods (first_render ex_props)),
      Uninstall 3 (getPluginMethods (first_render ex_props))]"
proof -
  have "positions_defining install ex_plugins = [0, 1]"
    and "positions_defining uninstall ex_plugins = [0, 3]"
    by (simp_all add: ex_plugins_def positions_defining_Cons positions_defining_Nil)
  with install_uninstall_once_in_order [of ex_props ex_operations 0 Suc ex_dom]
  show ?thesis
    by (simp add: ex_mounted_def ex_props_fields)
qed

subsection \<open>Navigation with a missing reference\<close>

text \<open>
  C9, as the code has it. For an index in range, when \<open>pagesRef\<close> or the ref of the
  target page holds no element, \<open>jumpToPage(index)\<close> does not scroll and raises
  nothing, and leaves the scale, the rotation, the canonical viewer state and the rest
  of the state as they were; it does set the current page index to \<open>index\<close>, since
  \<open>setCurrentPage\<close> stands after the guarded scroll, not inside it.
\<close>

theorem jumpToPage_missing_reference:
  assumes "0 \<le> i" and "i < int (numPages P)"
    and "pagesRef st = None \<or> pageRefs st (nat i) = None"
  shows "jumpToPage P i st = st\<lparr>currentPage_s := i\<rparr>"
  using assms by (auto simp: jumpToPage_def split: option.splits)

theorem jumpToPage_missing_reference_witness:
  "(0 :: int) \<le> 2 \<and> 2 < int (numPages ex_props) \<and>
   pagesRef (ex_mounted\<lparr>pagesRef := None\<rparr>) = None \<and>
   jumpToPage ex_props 2 (ex_mounted\<lparr>pagesRef := None\<rparr>) =
     ex_mounted\<lparr>pagesRef := None, currentPage_s := 2\<rparr>"
  using jumpToPage_missing_reference [of 2 ex_props "ex_mounted\<lparr>pagesRef := None\<rparr>"]
  by (simp add: ex_props_fields)

text \<open>The claim C9 as stated fails: with the container's ref missing, a jump to the
  page of index 2 of three changes the current page index from 0 to 2.\<close>

theorem jumpToPage_missing_reference_changes_page:
  "pagesRef (ex_mounted\<lparr>pagesRef := None\<rparr>) = None \<and>
   (0 :: int) \<le> 2 \<and> 2 < int (numPages ex_props) \<and>
   currentPage_s (ex_mounted\<lparr>pagesRef := None\<rparr>) = 0 \<and>
   currentPage_s (jumpToPage ex_props 2 (ex_mounted\<lparr>pagesRef := None\<rparr>)) = 2"
  by (simp add: jumpToPage_def ex_props_fields ex_mounted_cells Let_def)

subsection \<open>A destination fetched for a viewer that has been unmounted\<close>

lemma unmount_is_unmounted: "is_unmounted P (unmount P st)"
  by (simp add: is_unmounted_def unmount_def installEffect_cleanup_def uninstall_forEach_calls
        list_all_iff)

text \<open>
  C7. The pages are children of the container, so unmounting the container detaches
  \<open>pagesRef\<close> and the ref of every page. When the fetch of \<open>jumpToDest\<close> resolves in
  such a state, the continuation leaves the state as it is: \<open>zoom\<close> returns at its
  check of \<open>pagesRef\<close>, and no \<open>scrollTop\<close> is written because the target page's ref
  holds no element. For a page index of the document nothing is raised.
\<close>

theorem jumpToDest_then_unmounted:
  assumes "is_unmounted P st"
  shows "jumpToDest_then P env pagesContainer i bottomOffset scaleTo viewport st =
           (st, if 0 \<le> i \<and> i < int (numPages P) then None else Some TypeError)"
proof -
  from assms have p: "pagesRef st = None"
    and r: "\<And>k. k < numPages P \<Longrightarrow> pageRefs st k = None"
    by (auto simp: is_unmounted_def list_all_iff)
  have z: "zoom P env (Level PageFit) st = st"
    using p by (rule zoom_not_mounted)
  show ?thesis
  proof (cases "0 \<le> i \<and> i < int (numPages P)")
    case True
    then have "pageRefs st (nat i) = None"
      by (intro r) auto
    with True z show ?thesis
      by (simp add: jumpToDest_then_def split: zoom_arg.splits SpecialZoomLevel.splits)
  next
    case False
    with z show ?thesis
      by (auto simp add: jumpToDest_then_def split: zoom_arg.splits SpecialZoomLevel.splits)
  qed
qed

text \<open>The scenario: \<open>jumpToDest(1, 0, PageFit)\<close> is called on the mounted viewer and
  captures the container, the viewer is unmounted, and then the fetch resolves.\<close>

theorem jumpToDest_then_unmounted_witness:
  "pending (jumpToDest ex_props (first_render ex_props) 1 0 (Level PageFit) ex_mounted) =
     [PageFetch 2 (first_render ex_props) 0 1 0 (Level PageFit)] \<and>
   is_unmounted ex_props
     (unmount ex_props (jumpToDest ex_props (first_render ex_props) 1 0 (Level PageFit) ex_mounted)) \<and>
   jumpToDest_then ex_props (first_render ex_props) 0 1 0 (Level PageFit)
       \<lparr>width = 400, height = 600\<rparr>
       (unmount ex_props (jumpToDest ex_props (first_render ex_props) 1 0 (Level PageFit) ex_mounted)) =
     (unmount ex_props (jumpToDest ex_props (first_render ex_props) 1 0 (Level PageFit) ex_mounted),
      None)"
  using jumpToDest_then_unmounted
          [OF unmount_is_unmounted
                [of ex_props "jumpToDest ex_props (first_render ex_props) 1 0 (Level PageFit) ex_mounted"],
           of "first_render ex_props" 0 1 0 "Level PageFit" "\<lparr>width = 400, height = 600\<rparr>"]
  by (simp add: unmount_is_unmounted jumpToDest_def ex_mounted_cells ex_props_fields)

lemma jumpToDest_then_mounted_scrolls:
  "scrollTop (elems (fst (jumpToDest_then ex_props (first_render ex_props) 0 1 0 (Factor 1)
      \<lparr>width = 400, height = 600\<rparr> ex_mounted)) 0) = 1200"
  by (simp add: jumpToDest_then_def ex_mounted_cells ex_props_fields ex_dom_def)


subsection \<open>The rotation of the canonical state\<close>

lemma passed_through_right_angle:
  "list_all keeps_right_angles hs \<Longrightarrow> right_angle (rotation s) \<Longrightarrow>
     right_angle (rotation (passed_through hs s))"
  by (induction hs arbitrary: s) (auto simp: keeps_right_angles_def)

lemma setViewerState_rotations_ok:
  assumes "hooks_keep_right_angles P" and "right_angle (rotation s)"
    and "right_angle (rotation_s st)"
    and "list_all (\<lambda>e. right_angle (rotation_r e)) (renders st)"
  shows "rotations_ok (setViewerState P s st)"
  using assms passed_through_right_angle [of "hooks_in_install_order (plugins P)" s]
  by (simp add: rotations_ok_def setViewerState_def setViewerState_forEach_hooks
        hooks_keep_right_angles_def)

lemma jumpToPage_rotations_ok: "rotations_ok st \<Longrightarrow> rotations_ok (jumpToPage P i st)"
  by (simp add: rotations_ok_def jumpToPage_def Let_def split: option.splits)

lemma zoom_rotations_ok:
  assumes "hooks_keep_right_angles P" and "rotations_ok st" and "right_angle (rotation_r env)"
  shows "rotations_ok (zoom P env z st)"
proof (cases "pagesRef st")
  case None
  with assms(2) show ?thesis by (simp add: zoom_def)
next
  case (Some e)
  with assms show ?thesis
    by (simp add: zoom_def Let_def rotations_ok_def
          setViewerState_rotations_ok [unfolded rotations_ok_def])
qed

lemma rotate_rotations_ok:
  assumes "hooks_keep_right_angles P" and "rotations_ok st" and "right_angle d"
  shows "rotations_ok (rotate_fn P env d st)"
  using assms
  by (simp add: rotate_fn_def rotations_ok_def
        setViewerState_rotations_ok [unfolded rotations_ok_def])

lemma pageChangeEffect_rotations_ok:
  assumes "hooks_keep_right_angles P" and "right_angle (rotation_r env)"
    and "right_angle (rotation_s st)"
    and "list_all (\<lambda>e. right_angle (rotation_r e)) (renders st)"
  shows "rotations_ok (pageChangeEffect P env st)"
  using assms by (simp add: pageChangeEffect_def setViewerState_rotations_ok)

lemma rerender_rotations_ok:
  assumes "hooks_keep_right_angles P" and "rotations_ok st"
  shows "rotations_ok (rerender P st)"
proof -
  let ?st1 = "st\<lparr>renders := renders st @ [snapshot st]\<rparr>"
  have r: "right_angle (rotation_r (snapshot st))"
    using assms(2) by (simp add: rotations_ok_def snapshot_def)
  have ok1: "rotations_ok ?st1"
    using assms(2) r by (simp add: rotations_ok_def)
  have "rotations_ok (pageChangeEffect P (snapshot st) ?st1)"
    using assms(1) r ok1 by (intro pageChangeEffect_rotations_ok) (simp_all add: rotations_ok_def)
  with ok1 show ?thesis
    by (simp add: rerender_def Let_def)
qed

lemma step_rotations_ok:
  assumes "hooks_keep_right_angles P" and "rotations_ok st" and "right_angle_argument x"
  shows "rotations_ok (step P x st)"
proof (cases x)
  case (Rotate k d)
  with assms show ?thesis by (simp add: rotate_rotations_ok)
next
  case (Zoom k z)
  show ?thesis
  proof (cases "k < length (renders st)")
    case True
    then have "right_angle (rotation_r (renders st ! k))"
      using assms(2) by (simp add: rotations_ok_def list_all_length)
    with assms True Zoom show ?thesis by (simp add: zoom_rotations_ok)
  next
    case False
    with assms Zoom show ?thesis by simp
  qed
next
  case (JumpToPage i)
  with assms show ?thesis by (simp add: jumpToPage_rotations_ok)
next
  case (SetViewerState s)
  with assms have "rotations_ok (setViewerState P s st)"
    by (intro setViewerState_rotations_ok) (simp_all add: rotations_ok_def)
  with SetViewerState show ?thesis by simp
next
  case Rerender
  with assms show ?thesis by (simp add: rerender_rotations_ok)
qed

lemma run_rotations_ok:
  "hooks_keep_right_angles P \<Longrightarrow> rotations_ok st \<Longrightarrow> list_all right_angle_argument xs \<Longrightarrow>
     rotations_ok (run P xs st)"
  by (induction xs arbitrary: st) (simp_all add: step_rotations_ok)

lemma mount_rotations_ok:
  assumes "hooks_keep_right_angles P"
  shows "rotations_ok (mount P pagesEle pageEles d)"
proof -
  let ?env = "first_render P"
  let ?st0 = "(init P d)\<lparr>pagesRef := Some pagesEle,
                pageRefs := (\<lambda>i. if i < numPages P then Some (pageEles i) else None)\<rparr>"
  let ?st2 = "documentLoadEffect P (installEffect P ?env ?st0)"
  have e: "right_angle (rotation_r ?env)"
    by (simp add: first_render_def right_angle_def)
  have "rotation_s ?st2 = 0 \<and> renders ?st2 = [?env]"
    by (simp add: documentLoadEffect_def installEffect_def Let_def install_forEach_calls
          onDocumentLoad_forEach_calls jumpToPage_def init_def split: option.splits)
  then have "rotations_ok (pageChangeEffect P ?env ?st2)"
    using assms e by (intro pageChangeEffect_rotations_ok) (simp_all add: right_angle_def)
  then have "rotations_ok (defaultScaleEffect P ?env (pageChangeEffect P ?env ?st2))"
    using assms e by (simp add: defaultScaleEffect_def zoom_rotations_ok split: option.splits)
  then show ?thesis
    by (simp add: mount_def Let_def)
qed

text \<open>
  C8, as the code has it. The code never checks a rotation: \<open>rotate\<close> stores its
  argument, \<open>setViewerState\<close> stores what the hooks return. So the rotation of the
  canonical state is a multiple of a quarter turn below a full turn for every state
  reached from the mounted viewer by operations of the capability object and renders,
  provided that every \<open>rotate\<close> is called with such a rotation, every
  \<open>setViewerState\<close> with a state that has one, and every \<open>onViewerStateChange\<close> hook
  returns a state with such a rotation when it is given one.
\<close>

theorem rotation_stays_right_angle:
  assumes "hooks_keep_right_angles P" and "list_all right_angle_argument ops"
  shows "rotation (getViewerState (run P ops (mount P pagesEle pageEles d))) \<in> {0, 90, 180, 270}"
  using run_rotations_ok [OF assms(1) mount_rotations_ok [OF assms(1)] assms(2)]
  by (simp add: rotations_ok_def getViewerState_def right_angle_def)

theorem rotation_stays_right_angle_witness:
  "hooks_keep_right_angles ex_props \<and> list_all right_angle_argument ex_operations \<and>
   rotation (getViewerState (run ex_props ex_operations ex_mounted)) \<in> {0, 90, 180, 270}"
proof -
  have q: "keeps_right_angles quarter_turn"
    by (auto simp: keeps_right_angles_def right_angle_def quarter_turn_def)
  have s: "keeps_right_angles double_scale"
    by (simp add: keeps_right_angles_def double_scale_def)
  have h: "hooks_keep_right_angles ex_props"
    using q s
    by (simp add: hooks_keep_right_angles_def hooks_in_install_order_def ex_props_fields
          ex_plugins_def)
  have a: "list_all right_angle_argument ex_operations"
    by (simp add: ex_operations_def ex_viewerState_def right_angle_def)
  from h a rotation_stays_right_angle [OF h a, of 0 Suc ex_dom] show ?thesis
    by (simp add: ex_mounted_def)
qed

text \<open>The claim C8 as stated fails: on a viewer without plugins, \<open>rotate(45)\<close> makes
  the rotation of the canonical state 45.\<close>

theorem rotate_stores_any_angle:
  "rotation (getViewerState (run ex_bare [Rotate 0 45] (mount ex_bare 0 Suc ex_dom))) = 45 \<and>
   (45 :: int) \<notin> {0, 90, 180, 270}"
  by (simp add: ex_bare_def ex_props_def mount_def init_def first_render_def
        defaultScaleEffect_def pageChangeEffect_def documentLoadEffect_def installEffect_def
        setViewerState_def rotate_fn_def getViewerState_def Let_def)

lemma ex_operations_result:
  "getViewerState (run ex_props ex_operations ex_mounted) =
     \<lparr>file_v = OpenFile ''a.pdf'' [37, 80, 68, 70], pageIndex = 2, rotation = 180, scale = 2\<rparr>"
  by (simp add: ex_operations_def ex_mount_defs double_scale_def rotate_fn_def zoom_def
        jumpToPage_def rerender_def snapshot_def getViewerState_def ex_dom_def
        SCROLL_BAR_WIDTH_def PAGE_PADDING_def)

end
